theory Spec2Isabelle
  imports Complex_Main "HOL-Library.AList"
begin

section \<open>Conventions of the embedding\<close>

text \<open>
  The financial-projection and scoring functions of the backend (\<^verbatim>\<open>routes/portfolio.py\<close>,
  \<^verbatim>\<open>routes/zones.py\<close>, \<^verbatim>\<open>routes/dashboard.py\<close>, \<^verbatim>\<open>routes/investments.py\<close>) are embedded
  as HOL functions.

  \<^item> Python numbers (\<^verbatim>\<open>int\<close> and \<^verbatim>\<open>float\<close> mixed by true division and \<^verbatim>\<open>**\<close>) are
    modelled by \<^typ>\<open>real\<close>: arithmetic is exact, there is no rounding, overflow or NaN.
    Integer-only quantities (database \<^verbatim>\<open>Integer\<close> columns, loop bounds) are \<^typ>\<open>int\<close>.
  \<^item> An exception raised by the Python code is a value \<open>Inl e\<close> of the result type.
  \<^item> A Python \<^verbatim>\<open>dict\<close> is an association list; \<^verbatim>\<open>d.get(k, default)\<close> is \<open>dict_get\<close>,
    \<^verbatim>\<open>d[k] = v\<close> is \<^const>\<open>AList.update\<close>, \<^verbatim>\<open>len(d)\<close> is \<^const>\<open>length\<close>.
\<close>

datatype py_error = ZeroDivisionError | TypeError | ComplexResult

definition bind_res :: "py_error + 'a \<Rightarrow> ('a \<Rightarrow> py_error + 'b) \<Rightarrow> py_error + 'b" where
  "bind_res m f = (case m of Inl e \<Rightarrow> Inl e | Inr v \<Rightarrow> f v)"

definition dict_get :: "('k \<times> 'v) list \<Rightarrow> 'k \<Rightarrow> 'v \<Rightarrow> 'v" where
  "dict_get d k dflt = (case map_of d k of None \<Rightarrow> dflt | Some v \<Rightarrow> v)"

text \<open>True division \<^verbatim>\<open>a / b\<close>: raises \<^verbatim>\<open>ZeroDivisionError\<close> when the divisor is zero.\<close>

definition py_div :: "real \<Rightarrow> real \<Rightarrow> py_error + real" where
  "py_div a b = (if b = 0 then Inl ZeroDivisionError else Inr (a / b))"

text \<open>
  \<^verbatim>\<open>x ** y\<close> on floats: a zero base with a negative exponent raises
  \<^verbatim>\<open>ZeroDivisionError\<close>; a negative base with a non-integral exponent yields a Python
  \<^verbatim>\<open>complex\<close>, which the real-valued model reports as \<open>ComplexResult\<close>.
\<close>

definition py_pow :: "real \<Rightarrow> real \<Rightarrow> py_error + real" where
  "py_pow x y =
     (if 0 < x then Inr (x powr y)
      else if x = 0 then
        (if y < 0 then Inl ZeroDivisionError else if y = 0 then Inr 1 else Inr 0)
      else if y = of_int \<lfloor>y\<rfloor> then Inr (power_int x \<lfloor>y\<rfloor>)
      else Inl ComplexResult)"

text \<open>\<^verbatim>\<open>x ** n\<close> with a float base and an \<^verbatim>\<open>int\<close> exponent.\<close>

definition py_pow_int :: "real \<Rightarrow> int \<Rightarrow> py_error + real" where
  "py_pow_int x n = (if x = 0 \<and> n < 0 then Inl ZeroDivisionError else Inr (power_int x n))"

section \<open>String helpers: \<^verbatim>\<open>str.replace\<close> and \<^verbatim>\<open>str.title\<close> (ASCII)\<close>

definition is_lower :: "char \<Rightarrow> bool" where
  "is_lower c = (97 \<le> (of_char c :: nat) \<and> (of_char c :: nat) \<le> 122)"

definition is_upper :: "char \<Rightarrow> bool" where
  "is_upper c = (65 \<le> (of_char c :: nat) \<and> (of_char c :: nat) \<le> 90)"

definition to_upper :: "char \<Rightarrow> char" where
  "to_upper c = (if is_lower c then char_of ((of_char c :: nat) - 32) else c)"

definition to_lower :: "char \<Rightarrow> char" where
  "to_lower c = (if is_upper c then char_of ((of_char c :: nat) + 32) else c)"

definition replace_char :: "char \<Rightarrow> char \<Rightarrow> string \<Rightarrow> string" where
  "replace_char old new s = map (\<lambda>c. if c = old then new else c) s"

text \<open>
  \<^verbatim>\<open>str.title()\<close>: a cased character that follows an uncased one is upper-cased, a cased
  character that follows a cased one is lower-cased. The flag is "previous character is
  cased".
\<close>

fun title_from :: "bool \<Rightarrow> string \<Rightarrow> string" where
  "title_from prev [] = []"
| "title_from prev (c # cs) =
     (if is_lower c then (if prev then c else to_upper c) # title_from True cs
      else if is_upper c then (if prev then to_lower c else c) # title_from True cs
      else c # title_from False cs)"

definition title :: "string \<Rightarrow> string" where
  "title s = title_from False s"

section \<open>Zones\<close>

text \<open>The fields of \<^verbatim>\<open>models/zone.py: Zone\<close> that the engine reads.\<close>

record zone =
  zone_id :: int
  zone_name :: string
  outlook :: string
  confidence :: string

section \<open>Growth projection: \<^verbatim>\<open>portfolio.py: calculate_investment_returns\<close>\<close>

definition return_rates :: "(string \<times> real) list" where
  "return_rates =
     [(''real_estate'', 12.0), (''sip'', 12.0), (''stocks'', 15.0),
      (''fixed_deposit'', 6.5), (''gold'', 8.0), (''ppf'', 7.1)]"

definition risk_levels :: "(string \<times> string) list" where
  "risk_levels =
     [(''real_estate'', ''MEDIUM''), (''sip'', ''MEDIUM''), (''stocks'', ''HIGH''),
      (''fixed_deposit'', ''LOW''), (''gold'', ''LOW''), (''ppf'', ''LOW'')]"

definition liquidity_ratings :: "(string \<times> string) list" where
  "liquidity_ratings =
     [(''real_estate'', ''LOW''), (''sip'', ''MEDIUM''), (''stocks'', ''HIGH''),
      (''fixed_deposit'', ''LOW''), (''gold'', ''HIGH''), (''ppf'', ''LOW'')]"

record scenario =
  sc_rate :: real
  sc_future_value :: real
  sc_roi_percentage :: real

record projection =
  investment_type :: string
  display_name :: string
  amount :: real
  horizon_months :: real
  annual_return_rate :: real
  future_value :: real
  total_returns :: real
  roi_percentage :: real
  risk_level :: string
  liquidity :: string
  optimistic :: scenario
  pessimistic :: scenario
  zone_info :: "zone option"

text \<open>
  The rate after the zone adjustment (lines 453--460): the table lookup with default
  \<open>10.0\<close>, then \<open>\<plusminus>2.0\<close> for a real-estate projection with a zone whose outlook is
  \<^verbatim>\<open>'HIGH'\<close> or \<^verbatim>\<open>'LOW'\<close>. A \<^verbatim>\<open>Zone\<close> object is always truthy, so \<^verbatim>\<open>and zone\<close> tests
  presence.
\<close>

definition resolve_base_rate :: "string \<Rightarrow> zone option \<Rightarrow> real" where
  "resolve_base_rate inv_type zn =
     (let base_rate = dict_get return_rates inv_type 10.0 in
      case zn of
        None \<Rightarrow> base_rate
      | Some z \<Rightarrow>
          if inv_type = ''real_estate'' then
            (if outlook z = ''HIGH'' then base_rate + 2.0
             else if outlook z = ''LOW'' then base_rate - 2.0
             else base_rate)
          else base_rate)"

definition calculate_investment_returns ::
  "string \<Rightarrow> real \<Rightarrow> real \<Rightarrow> zone option \<Rightarrow> py_error + projection" where
  "calculate_investment_returns inv_type amt horizon zn =
     (let base_rate = resolve_base_rate inv_type zn;
          annual_rate = base_rate / 100;
          years = horizon / 12
      in
      bind_res (py_pow (1 + annual_rate) years) (\<lambda>growth.
      let fv = amt * growth;
          returns = fv - amt
      in
      bind_res (py_div returns amt) (\<lambda>q.
      let roi = q * 100;
          optimistic_rate = base_rate + 3.0;
          pessimistic_rate = max (base_rate - 3.0) 1.0
      in
      bind_res (py_pow (1 + optimistic_rate / 100) years) (\<lambda>og.
      bind_res (py_pow (1 + pessimistic_rate / 100) years) (\<lambda>pg.
      let optimistic_value = amt * og;
          pessimistic_value = amt * pg
      in
      bind_res (py_div (optimistic_value - amt) amt) (\<lambda>oq.
      bind_res (py_div (pessimistic_value - amt) amt) (\<lambda>pq.
      Inr \<lparr> investment_type = inv_type,
            display_name = title (replace_char (CHR ''_'') (CHR '' '') inv_type),
            amount = amt,
            horizon_months = horizon,
            annual_return_rate = base_rate,
            future_value = fv,
            total_returns = returns,
            roi_percentage = roi,
            risk_level = dict_get risk_levels inv_type ''MEDIUM'',
            liquidity = dict_get liquidity_ratings inv_type ''MEDIUM'',
            optimistic = \<lparr> sc_rate = optimistic_rate,
                           sc_future_value = optimistic_value,
                           sc_roi_percentage = oq * 100 \<rparr>,
            pessimistic = \<lparr> sc_rate = pessimistic_rate,
                            sc_future_value = pessimistic_value,
                            sc_roi_percentage = pq * 100 \<rparr>,
            zone_info = zn \<rparr>)))))))"

section \<open>Zone ROI: \<^verbatim>\<open>zones.py: calculate_roi_for_zone\<close>\<close>

text \<open>
  \<^verbatim>\<open>round(x, n)\<close> on exact reals: the nearest multiple of \<open>10\<^sup>-\<^sup>n\<close>, a tie going to
  the even one.
\<close>

definition round_half_even :: "real \<Rightarrow> int" where
  "round_half_even y =
     (let f = \<lfloor>y\<rfloor>;
          d = y - of_int f
      in if d < 1 / 2 then f
         else if 1 / 2 < d then f + 1
         else if even f then f
         else f + 1)"

definition py_round :: "real \<Rightarrow> nat \<Rightarrow> real" where
  "py_round x n = of_int (round_half_even (x * 10 ^ n)) / 10 ^ n"

definition zone_moderate_rates :: "(string \<times> real) list" where
  "zone_moderate_rates = [(''real_estate'', 8), (''stocks'', 12), (''sip'', 10), (''bonds'', 6)]"

definition zone_base_rates :: "(string \<times> (string \<times> real) list) list" where
  "zone_base_rates =
     [(''HIGH'', [(''real_estate'', 12), (''stocks'', 15), (''sip'', 12), (''bonds'', 7)]),
      (''MODERATE'', zone_moderate_rates),
      (''LOW'', [(''real_estate'', 5), (''stocks'', 8), (''sip'', 8), (''bonds'', 5)])]"

definition confidence_multipliers :: "(string \<times> real) list" where
  "confidence_multipliers = [(''HIGH'', 1.0), (''MEDIUM'', 0.9), (''LOW'', 0.8)]"

text \<open>Lines 174--178: the rate that the zone variant compounds with.\<close>

definition zone_adjusted_rate :: "zone \<Rightarrow> string \<Rightarrow> real" where
  "zone_adjusted_rate z inv_type =
     (let base_rate = dict_get (dict_get zone_base_rates (outlook z) zone_moderate_rates) inv_type 8;
          confidence_multiplier = dict_get confidence_multipliers (confidence z) 0.9
      in base_rate * confidence_multiplier)"

record zone_roi =
  zr_zone_id :: int
  zr_zone_name :: string
  zr_investment_amount :: real
  zr_investment_type :: string
  zr_time_horizon_months :: real
  zr_base_rate_percent :: real
  zr_future_value :: real
  zr_total_returns :: real
  zr_roi_percentage :: real
  zr_optimistic :: scenario
  zr_pessimistic :: scenario

definition calculate_roi_for_zone ::
  "zone \<Rightarrow> real \<Rightarrow> string \<Rightarrow> real \<Rightarrow> py_error + zone_roi" where
  "calculate_roi_for_zone z investment_amount inv_type time_horizon =
     (let adjusted_rate = zone_adjusted_rate z inv_type;
          monthly_rate = adjusted_rate / 100 / 12
      in
      bind_res (py_pow (1 + monthly_rate) time_horizon) (\<lambda>growth.
      let fv = investment_amount * growth;
          returns = fv - investment_amount
      in
      bind_res (py_div returns investment_amount) (\<lambda>q.
      let roi = q * 100 in
      bind_res (py_pow (1 + (adjusted_rate * 1.2) / 100 / 12) time_horizon) (\<lambda>og.
      bind_res (py_pow (1 + (adjusted_rate * 0.7) / 100 / 12) time_horizon) (\<lambda>pg.
      let opt_rate = adjusted_rate * 1.2;
          opt_value = investment_amount * og;
          pes_rate = adjusted_rate * 0.7;
          pes_value = investment_amount * pg
      in
      bind_res (py_div (opt_value - investment_amount) investment_amount) (\<lambda>oq.
      bind_res (py_div (pes_value - investment_amount) investment_amount) (\<lambda>pq.
      Inr \<lparr> zr_zone_id = zone_id z,
            zr_zone_name = zone_name z,
            zr_investment_amount = investment_amount,
            zr_investment_type = inv_type,
            zr_time_horizon_months = time_horizon,
            zr_base_rate_percent = py_round adjusted_rate 2,
            zr_future_value = py_round fv 2,
            zr_total_returns = py_round returns 2,
            zr_roi_percentage = py_round roi 2,
            zr_optimistic = \<lparr> sc_rate = py_round opt_rate 2,
                              sc_future_value = py_round opt_value 2,
                              sc_roi_percentage = py_round (oq * 100) 2 \<rparr>,
            zr_pessimistic = \<lparr> sc_rate = py_round pes_rate 2,
                               sc_future_value = py_round pes_value 2,
                               sc_roi_percentage = py_round (pq * 100) 2 \<rparr> \<rparr>)))))))"

section \<open>SIP calculator: \<^verbatim>\<open>portfolio.py: sip_calculator\<close>\<close>

text \<open>
  The parameters are the values read from the request body (\<^verbatim>\<open>monthly_sip\<close>,
  \<^verbatim>\<open>annual_return\<close>, \<^verbatim>\<open>time_period\<close>). The year count is an \<^typ>\<open>int\<close>: it is the bound
  of \<^verbatim>\<open>range(1, time_period + 1)\<close>.
\<close>

record sip_details =
  sd_monthly_sip :: real
  sd_annual_return :: real
  sd_time_period :: int
  sd_total_invested :: real
  sd_future_value :: real
  sd_total_returns :: real
  sd_roi_percentage :: real

record lump_sum_comparison =
  ls_amount :: real
  ls_future_value :: real
  ls_total_returns :: real
  ls_roi_percentage :: real

record sip_year =
  sy_year :: int
  sy_invested :: real
  sy_value :: real
  sy_returns :: real

record sip_response =
  sr_sip_details :: sip_details
  sr_lump_sum_comparison :: lump_sum_comparison
  sr_yearly_breakdown :: "sip_year list"
  sr_recommendation :: string

text \<open>
  The annuity-due formula of lines 360 and 380,
  \<^verbatim>\<open>monthly_sip * (((1 + r) ** months - 1) / r) * (1 + r)\<close>.
\<close>

definition sip_value :: "real \<Rightarrow> real \<Rightarrow> int \<Rightarrow> py_error + real" where
  "sip_value monthly_sip monthly_return months =
     bind_res (py_pow_int (1 + monthly_return) months) (\<lambda>p.
     bind_res (py_div (p - 1) monthly_return) (\<lambda>q.
     Inr (monthly_sip * q * (1 + monthly_return))))"

text \<open>The loop of lines 377--389; the accumulator is \<^verbatim>\<open>invested_so_far\<close>.\<close>

fun yearly_rows :: "real \<Rightarrow> real \<Rightarrow> real \<Rightarrow> int list \<Rightarrow> py_error + sip_year list" where
  "yearly_rows monthly_sip monthly_return invested_so_far [] = Inr []"
| "yearly_rows monthly_sip monthly_return invested_so_far (year # ys) =
     (let invested = invested_so_far + monthly_sip * 12 in
      bind_res (if 0 < monthly_return then sip_value monthly_sip monthly_return (year * 12)
                else Inr invested) (\<lambda>current_value.
      bind_res (yearly_rows monthly_sip monthly_return invested ys) (\<lambda>rest.
      Inr (\<lparr> sy_year = year, sy_invested = invested, sy_value = current_value,
             sy_returns = current_value - invested \<rparr> # rest))))"

definition sip_calculator :: "real \<Rightarrow> real \<Rightarrow> int \<Rightarrow> py_error + sip_response" where
  "sip_calculator monthly_sip annual_return time_period =
     (let monthly_return = annual_return / 12 / 100;
          total_months = time_period * 12
      in
      bind_res (if 0 < monthly_return then sip_value monthly_sip monthly_return total_months
                else Inr (monthly_sip * of_int total_months)) (\<lambda>sip_future_value.
      let total_invested = monthly_sip * of_int total_months;
          sip_returns = sip_future_value - total_invested;
          lump_sum_amount = total_invested
      in
      bind_res (py_pow_int (1 + annual_return / 100) time_period) (\<lambda>lg.
      let lump_sum_future_value = lump_sum_amount * lg;
          lump_sum_returns = lump_sum_future_value - lump_sum_amount
      in
      bind_res (yearly_rows monthly_sip monthly_return 0 [1..time_period]) (\<lambda>yearly_breakdown.
      Inr \<lparr> sr_sip_details =
              \<lparr> sd_monthly_sip = monthly_sip,
                sd_annual_return = annual_return,
                sd_time_period = time_period,
                sd_total_invested = total_invested,
                sd_future_value = sip_future_value,
                sd_total_returns = sip_returns,
                sd_roi_percentage =
                  (if 0 < total_invested then sip_returns / total_invested * 100 else 0) \<rparr>,
            sr_lump_sum_comparison =
              \<lparr> ls_amount = lump_sum_amount,
                ls_future_value = lump_sum_future_value,
                ls_total_returns = lump_sum_returns,
                ls_roi_percentage =
                  (if 0 < lump_sum_amount then lump_sum_returns / lump_sum_amount * 100 else 0) \<rparr>,
            sr_yearly_breakdown = yearly_breakdown,
            sr_recommendation =
              (if lump_sum_future_value < sip_future_value then ''SIP'' else ''Lump Sum'') \<rparr>))))"

section \<open>Investment comparison: \<^verbatim>\<open>portfolio.py: compare_investments\<close>\<close>




section \<open>Portfolio risk: \<^verbatim>\<open>dashboard.py: calculate_portfolio_risk\<close>\<close>

record plan =
  plan_id :: int
  plan_name :: string

record snapshot =
  snap_asset_type :: string
  snap_amount :: real

record portfolio_risk =
  pr_portfolio_id :: int
  pr_portfolio_name :: string
  pr_risk_score :: real
  pr_risk_level :: string
  pr_asset_allocation :: "(string \<times> real) list"
  pr_diversification_score :: int
  pr_volatility_estimate :: real

definition risk_weights :: "(string \<times> real) list" where
  "risk_weights =
     [(''real_estate'', 0.6), (''stocks'', 0.8), (''sip'', 0.5),
      (''fixed_deposit'', 0.1), (''gold'', 0.3), (''ppf'', 0.1)]"

definition calculate_diversification_score :: "(string \<times> real) list \<Rightarrow> int" where
  "calculate_diversification_score asset_allocation =
     (if asset_allocation = [] then 0
      else let num_assets = length asset_allocation in
        if num_assets = 1 then 20
        else if num_assets = 2 then 40
        else if 5 \<le> num_assets then 90
        else 60)"

text \<open>The loop of lines 594--597, one \<^verbatim>\<open>asset_allocation[asset_type] = percentage\<close> per snapshot.\<close>

definition build_allocation :: "real \<Rightarrow> snapshot list \<Rightarrow> (string \<times> real) list" where
  "build_allocation total_value snapshots =
     foldl (\<lambda>alloc s.
              AList.update (snap_asset_type s)
                (if 0 < total_value then snap_amount s / total_value * 100 else 0) alloc)
           [] snapshots"

definition calculate_portfolio_risk :: "plan \<Rightarrow> snapshot list \<Rightarrow> portfolio_risk" where
  "calculate_portfolio_risk portfolio snapshots =
     (let total_value = sum_list (map snap_amount snapshots);
          asset_allocation = build_allocation total_value snapshots;
          risk_score =
            foldl (\<lambda>acc (asset_type, percentage).
                     acc + (percentage / 100) * dict_get risk_weights asset_type 0.5 * 100)
                  0 asset_allocation
      in \<lparr> pr_portfolio_id = plan_id portfolio,
           pr_portfolio_name = plan_name portfolio,
           pr_risk_score = py_round risk_score 2,
           pr_risk_level =
             (if 70 < risk_score then ''HIGH'' else if 30 < risk_score then ''MEDIUM'' else ''LOW''),
           pr_asset_allocation = asset_allocation,
           pr_diversification_score = calculate_diversification_score asset_allocation,
           pr_volatility_estimate = py_round (risk_score * 0.3) 2 \<rparr>)"

section \<open>Financial health: \<^verbatim>\<open>investments.py: calculate_financial_health_score\<close>\<close>

text \<open>
  The columns are nullable integers; \<open>None\<close> is SQL \<^verbatim>\<open>NULL\<close>. A value is truthy when it
  is present and not zero.
\<close>

record user =
  user_id :: int
  monthly_income :: "int option"
  monthly_expenses :: "int option"

record asset_snapshot =
  savings :: "int option"
  mf :: "int option"
  stocks :: "int option"
  gold :: "int option"
  epf :: "int option"
  real_estate :: "int option"
  liabilities :: "int option"

definition truthy :: "int option \<Rightarrow> bool" where
  "truthy v = (case v of None \<Rightarrow> False | Some n \<Rightarrow> n \<noteq> 0)"

text \<open>
  Each factor returns the points it adds to \<^verbatim>\<open>score\<close> and the entry it writes into
  \<^verbatim>\<open>factors\<close> (\<open>None\<close> when it writes none).
\<close>

definition income_factor :: "user \<Rightarrow> int \<times> string option" where
  "income_factor u =
     (case monthly_income u of
        None \<Rightarrow> (0, None)
      | Some income \<Rightarrow>
          if income = 0 then (0, None)
          else if 100000 \<le> income then (20, Some ''Excellent'')
          else if 50000 \<le> income then (15, Some ''Good'')
          else if 25000 \<le> income then (10, Some ''Average'')
          else (5, Some ''Below Average''))"

definition expense_ratio_factor :: "user \<Rightarrow> int \<times> string option" where
  "expense_ratio_factor u =
     (case (monthly_income u, monthly_expenses u) of
        (Some income, Some expenses) \<Rightarrow>
          if income = 0 \<or> expenses = 0 then (0, None)
          else let expense_ratio = (of_int expenses :: real) / of_int income in
            if expense_ratio \<le> 0.5 then (20, Some ''Excellent'')
            else if expense_ratio \<le> 0.7 then (15, Some ''Good'')
            else if expense_ratio \<le> 0.9 then (10, Some ''Average'')
            else (5, Some ''Poor'')
      | _ \<Rightarrow> (0, None))"

text \<open>
  Lines 435--461. The six asset columns are added up first, which raises \<^verbatim>\<open>TypeError\<close>
  when one of them is \<^verbatim>\<open>NULL\<close>; \<^verbatim>\<open>asset_types\<close> counts the columns that are positive.
\<close>

definition asset_columns :: "asset_snapshot \<Rightarrow> int option list" where
  "asset_columns s = [savings s, mf s, stocks s, gold s, epf s, real_estate s]"

definition diversification_factor :: "asset_snapshot option \<Rightarrow> py_error + int \<times> string option" where
  "diversification_factor snap =
     (case snap of
        None \<Rightarrow> Inr (0, None)
      | Some s \<Rightarrow>
          (case those (asset_columns s) of
             None \<Rightarrow> Inl TypeError
           | Some vs \<Rightarrow>
               let total_assets = sum_list vs in
               if 0 < total_assets then
                 (let asset_types = length (filter (\<lambda>v. 0 < v) vs) in
                  if 4 \<le> asset_types then Inr (30, Some ''Excellent'')
                  else if 3 \<le> asset_types then Inr (20, Some ''Good'')
                  else if 2 \<le> asset_types then Inr (15, Some ''Average'')
                  else Inr (10, Some ''Poor''))
               else Inr (0, None)))"

text \<open>
  Lines 463--481. The outer test is \<^verbatim>\<open>asset_snapshot and asset_snapshot.liabilities\<close>:
  it fails when there is no snapshot or when \<^verbatim>\<open>liabilities\<close> is \<^verbatim>\<open>NULL\<close> or \<open>0\<close>, and its
  \<^verbatim>\<open>else\<close> branch awards the 20 points (\<open>no_debt\<close>). The inner
  \<^verbatim>\<open>if user.monthly_income\<close> has no \<^verbatim>\<open>else\<close>.
\<close>

definition debt_factor :: "user \<Rightarrow> asset_snapshot option \<Rightarrow> int \<times> string option" where
  "debt_factor u snap =
     (let no_debt = (20, Some ''Excellent'') in
      case snap of
        None \<Rightarrow> no_debt
      | Some s \<Rightarrow>
          (case liabilities s of
             None \<Rightarrow> no_debt
           | Some l \<Rightarrow>
               if l = 0 then no_debt
               else
                 (case monthly_income u of
                    None \<Rightarrow> (0, None)
                  | Some income \<Rightarrow>
                      if income = 0 then (0, None)
                      else
                        let debt_to_income = (of_int (l * 12) :: real) / of_int income in
                        if debt_to_income \<le> 2 then (20, Some ''Excellent'')
                        else if debt_to_income \<le> 4 then (15, Some ''Good'')
                        else if debt_to_income \<le> 6 then (10, Some ''Average'')
                        else (5, Some ''Poor''))))"

text \<open>\<open>goals_count\<close> is the result of \<^verbatim>\<open>Goal.query.filter_by(user_id=user.id).count()\<close>.\<close>

definition goal_factor :: "nat \<Rightarrow> int \<times> string option" where
  "goal_factor goals_count =
     (if 3 \<le> goals_count then (10, Some ''Excellent'')
      else if 2 \<le> goals_count then (8, Some ''Good'')
      else if 1 \<le> goals_count then (5, Some ''Average'')
      else (0, Some ''Poor''))"

record health_factors =
  hf_income :: "string option"
  hf_expense_ratio :: "string option"
  hf_diversification :: "string option"
  hf_debt :: "string option"
  hf_goal_planning :: "string option"

record health_score =
  hs_score :: int
  hs_rating :: string
  hs_factors :: health_factors
  hs_recommendations :: "string list"

definition average_or_poor :: "string option \<Rightarrow> bool" where
  "average_or_poor r = (r = Some ''Average'' \<or> r = Some ''Poor'')"

definition get_health_recommendations :: "int \<Rightarrow> health_factors \<Rightarrow> string list" where
  "get_health_recommendations score factors =
     (if average_or_poor (hf_expense_ratio factors)
        then [''Reduce monthly expenses to improve savings rate''] else []) @
     (if average_or_poor (hf_diversification factors)
        then [''Diversify investments across different asset classes''] else []) @
     (if average_or_poor (hf_debt factors)
        then [''Focus on reducing debt burden''] else []) @
     (if average_or_poor (hf_goal_planning factors)
        then [''Set clear financial goals with timelines''] else []) @
     (if score < 70 then [''Consider consulting a financial advisor''] else [])"

definition calculate_financial_health_score ::
  "user \<Rightarrow> asset_snapshot option \<Rightarrow> nat \<Rightarrow> py_error + health_score" where
  "calculate_financial_health_score u snap goals_count =
     (let inc = income_factor u;
          ex = expense_ratio_factor u
      in
      bind_res (diversification_factor snap) (\<lambda>dv.
      let debt = debt_factor u snap;
          gl = goal_factor goals_count;
          score = fst inc + fst ex + fst dv + fst debt + fst gl;
          factors = \<lparr> hf_income = snd inc, hf_expense_ratio = snd ex,
                      hf_diversification = snd dv, hf_debt = snd debt,
                      hf_goal_planning = snd gl \<rparr>;
          rating =
            (if 85 \<le> score then ''Excellent''
             else if 70 \<le> score then ''Good''
             else if 55 \<le> score then ''Average''
             else if 40 \<le> score then ''Below Average''
             else ''Poor'')
      in Inr \<lparr> hs_score = min score 100,
               hs_rating = rating,
               hs_factors = factors,
               hs_recommendations = get_health_recommendations score factors \<rparr>))"

section \<open>Basic facts about the embedding\<close>

lemma bind_res_Inr [simp]: "bind_res (Inr v) f = f v"
  by (simp add: bind_res_def)

lemma bind_res_Inl [simp]: "bind_res (Inl e) f = Inl e"
  by (simp add: bind_res_def)

lemma py_pow_pos: "0 < x \<Longrightarrow> py_pow x y = Inr (x powr y)"
  by (simp add: py_pow_def)

lemma round_half_even_bounds:
  "\<lfloor>y\<rfloor> \<le> round_half_even y \<and> round_half_even y \<le> \<lfloor>y\<rfloor> + 1"
  by (simp add: round_half_even_def Let_def)

lemma round_half_even_mono:
  assumes "x \<le> y"
  shows "round_half_even x \<le> round_half_even y"
proof (cases "\<lfloor>x\<rfloor> = \<lfloor>y\<rfloor>")
  case True
  with assms have "x - of_int \<lfloor>x\<rfloor> \<le> y - of_int \<lfloor>y\<rfloor>" by simp
  with True show ?thesis
    by (auto simp add: round_half_even_def Let_def)
next
  case False
  with assms have "\<lfloor>x\<rfloor> < \<lfloor>y\<rfloor>"
    using floor_mono [of x y] by linarith
  then have "round_half_even x \<le> \<lfloor>y\<rfloor>"
    using round_half_even_bounds [of x] by linarith
  then show ?thesis
    using round_half_even_bounds [of y] by linarith
qed

lemma py_round_mono: "x \<le> y \<Longrightarrow> py_round x n \<le> py_round y n"
  unfolding py_round_def
  by (intro divide_right_mono round_half_even_mono mult_right_mono iffD2 [OF of_int_le_iff]) simp_all

lemma resolve_base_rate_bounds:
  "6.5 \<le> resolve_base_rate t z \<and> resolve_base_rate t z \<le> 17"
  by (simp add: resolve_base_rate_def dict_get_def return_rates_def Let_def split: option.split)

lemma calculate_investment_returns_zero:
  "calculate_investment_returns t 0 h z = Inl ZeroDivisionError"
proof -
  have "0 < 1 + resolve_base_rate t z / 100"
    using resolve_base_rate_bounds [of t z] by simp
  then show ?thesis
    by (simp add: calculate_investment_returns_def Let_def py_pow_pos py_div_def)
qed

lemma calculate_investment_returns_nonzero:
  assumes "a \<noteq> 0"
  shows "calculate_investment_returns t a h z =
     Inr \<lparr> investment_type = t,
            display_name = title (replace_char (CHR ''_'') (CHR '' '') t),
            amount = a,
            horizon_months = h,
            annual_return_rate = resolve_base_rate t z,
            future_value = a * (1 + resolve_base_rate t z / 100) powr (h / 12),
            total_returns = a * (1 + resolve_base_rate t z / 100) powr (h / 12) - a,
            roi_percentage = (a * (1 + resolve_base_rate t z / 100) powr (h / 12) - a) / a * 100,
            risk_level = dict_get risk_levels t ''MEDIUM'',
            liquidity = dict_get liquidity_ratings t ''MEDIUM'',
            optimistic = \<lparr> sc_rate = resolve_base_rate t z + 3,
                           sc_future_value = a * (1 + (resolve_base_rate t z + 3) / 100) powr (h / 12),
                           sc_roi_percentage = (a * (1 + (resolve_base_rate t z + 3) / 100) powr (h / 12) - a) / a * 100 \<rparr>,
            pessimistic = \<lparr> sc_rate = max (resolve_base_rate t z - 3) 1,
                            sc_future_value = a * (1 + max (resolve_base_rate t z - 3) 1 / 100) powr (h / 12),
                            sc_roi_percentage = (a * (1 + max (resolve_base_rate t z - 3) 1 / 100) powr (h / 12) - a) / a * 100 \<rparr>,
            zone_info = z \<rparr>"
proof -
  have b: "6.5 \<le> resolve_base_rate t z"
    using resolve_base_rate_bounds [of t z] by simp
  have p1: "0 < 1 + resolve_base_rate t z / 100" using b by simp
  have p2: "0 < 1 + (resolve_base_rate t z + 3) / 100"
    using b by (intro add_pos_nonneg) simp_all
  have p3: "0 < 1 + max (resolve_base_rate t z - 3) 1 / 100"
    by (intro add_pos_nonneg) simp_all
  show ?thesis
    using assms p1 p2 p3
    by (simp add: calculate_investment_returns_def Let_def py_pow_pos py_div_def)
qed

lemma zone_adjusted_rate_bounds:
  "3 \<le> zone_adjusted_rate z t \<and> zone_adjusted_rate z t \<le> 15"
  by (simp add: zone_adjusted_rate_def dict_get_def zone_base_rates_def zone_moderate_rates_def
      confidence_multipliers_def Let_def)

lemma calculate_roi_for_zone_nonzero:
  assumes "a \<noteq> 0"
  shows "calculate_roi_for_zone z a t h =
     Inr \<lparr> zr_zone_id = zone_id z,
            zr_zone_name = zone_name z,
            zr_investment_amount = a,
            zr_investment_type = t,
            zr_time_horizon_months = h,
            zr_base_rate_percent = py_round (zone_adjusted_rate z t) 2,
            zr_future_value = py_round (a * (1 + zone_adjusted_rate z t / 100 / 12) powr h) 2,
            zr_total_returns = py_round (a * (1 + zone_adjusted_rate z t / 100 / 12) powr h - a) 2,
            zr_roi_percentage =
              py_round ((a * (1 + zone_adjusted_rate z t / 100 / 12) powr h - a) / a * 100) 2,
            zr_optimistic =
              \<lparr> sc_rate = py_round (zone_adjusted_rate z t * 1.2) 2,
                sc_future_value =
                  py_round (a * (1 + zone_adjusted_rate z t * 1.2 / 100 / 12) powr h) 2,
                sc_roi_percentage =
                  py_round ((a * (1 + zone_adjusted_rate z t * 1.2 / 100 / 12) powr h - a) / a * 100) 2 \<rparr>,
            zr_pessimistic =
              \<lparr> sc_rate = py_round (zone_adjusted_rate z t * 0.7) 2,
                sc_future_value =
                  py_round (a * (1 + zone_adjusted_rate z t * 0.7 / 100 / 12) powr h) 2,
                sc_roi_percentage =
                  py_round ((a * (1 + zone_adjusted_rate z t * 0.7 / 100 / 12) powr h - a) / a * 100) 2 \<rparr> \<rparr>"
proof -
  have b: "0 \<le> zone_adjusted_rate z t"
    using zone_adjusted_rate_bounds [of z t] by linarith
  have p1: "0 < 1 + zone_adjusted_rate z t / 100 / 12"
    using b by (intro add_pos_nonneg) simp_all
  have p2: "0 < 1 + zone_adjusted_rate z t * 1.2 / 100 / 12"
    using b by (intro add_pos_nonneg) simp_all
  have p3: "0 < 1 + zone_adjusted_rate z t * 0.7 / 100 / 12"
    using b by (intro add_pos_nonneg) simp_all
  show ?thesis
    using assms p1 p2 p3
    by (simp add: calculate_roi_for_zone_def Let_def py_pow_pos py_div_def)
qed

section \<open>Growth projection: stress band and monotonicity\<close>

text \<open>
  Claim C1. Every projection for a positive amount and a positive horizon, for any
  asset-class name and with or without a zone, succeeds with a non-negative resolved rate;
  its optimistic rate is the resolved rate plus 3.0, its pessimistic rate is
  \<open>max (rate - 3.0) 1.0\<close>, and the stress band brackets the base case:
  pessimistic future value \<open>\<le>\<close> future value \<open>\<le>\<close> optimistic future value.
  The second conjunct is the same bracketing for the zone-ROI variant, whose band is
  multiplicative (\<open>\<times> 1.2\<close> and \<open>\<times> 0.7\<close>), on the rounded values it returns.
\<close>

theorem stress_band_brackets_base:
  assumes "0 < a" and "0 < h"
  shows "(\<exists>r. calculate_investment_returns t a h z = Inr r
            \<and> 0 \<le> annual_return_rate r
            \<and> sc_rate (optimistic r) = annual_return_rate r + 3.0
            \<and> sc_rate (pessimistic r) = max (annual_return_rate r - 3.0) 1.0
            \<and> sc_future_value (pessimistic r) \<le> future_value r
            \<and> future_value r \<le> sc_future_value (optimistic r))
       \<and> (\<exists>q. calculate_roi_for_zone zn a t h = Inr q
            \<and> sc_future_value (zr_pessimistic q) \<le> zr_future_value q
            \<and> zr_future_value q \<le> sc_future_value (zr_optimistic q))"
proof
  let ?b = "resolve_base_rate t z"
  have b: "6.5 \<le> ?b" using resolve_base_rate_bounds [of t z] by simp
  have y: "0 \<le> h / 12" using assms by simp
  have pes: "max (?b - 3) 1 \<le> ?b" using b by simp
  have lo: "(1 + max (?b - 3) 1 / 100) powr (h / 12) \<le> (1 + ?b / 100) powr (h / 12)"
    using pes by (intro powr_mono2 y add_nonneg_nonneg) simp_all
  have hi: "(1 + ?b / 100) powr (h / 12) \<le> (1 + (?b + 3) / 100) powr (h / 12)"
    using b by (intro powr_mono2 y add_nonneg_nonneg) simp_all
  from assms have nz: "a \<noteq> 0" by simp
  show "\<exists>r. calculate_investment_returns t a h z = Inr r
            \<and> 0 \<le> annual_return_rate r
            \<and> sc_rate (optimistic r) = annual_return_rate r + 3.0
            \<and> sc_rate (pessimistic r) = max (annual_return_rate r - 3.0) 1.0
            \<and> sc_future_value (pessimistic r) \<le> future_value r
            \<and> future_value r \<le> sc_future_value (optimistic r)"
    using b lo hi assms by (simp add: calculate_investment_returns_nonzero [OF nz])
next
  let ?r = "zone_adjusted_rate zn t"
  have r: "0 \<le> ?r" using zone_adjusted_rate_bounds [of zn t] by linarith
  have y: "0 \<le> h" using assms by simp
  have lo: "(1 + ?r * 0.7 / 100 / 12) powr h \<le> (1 + ?r / 100 / 12) powr h"
    using r by (intro powr_mono2 y add_nonneg_nonneg) simp_all
  have hi: "(1 + ?r / 100 / 12) powr h \<le> (1 + ?r * 1.2 / 100 / 12) powr h"
    using r by (intro powr_mono2 y add_nonneg_nonneg) simp_all
  from assms have nz: "a \<noteq> 0" by simp
  have "py_round (a * (1 + ?r * 0.7 / 100 / 12) powr h) 2 \<le> py_round (a * (1 + ?r / 100 / 12) powr h) 2"
    using lo assms by (intro py_round_mono mult_left_mono) simp_all
  moreover
  have "py_round (a * (1 + ?r / 100 / 12) powr h) 2 \<le> py_round (a * (1 + ?r * 1.2 / 100 / 12) powr h) 2"
    using hi assms by (intro py_round_mono mult_left_mono) simp_all
  ultimately
  show "\<exists>q. calculate_roi_for_zone zn a t h = Inr q
            \<and> sc_future_value (zr_pessimistic q) \<le> zr_future_value q
            \<and> zr_future_value q \<le> sc_future_value (zr_optimistic q)"
    by (simp add: calculate_roi_for_zone_nonzero [OF nz])
qed

theorem stress_band_brackets_base_witness:
  "(0::real) < 1000 \<and> (0::real) < 60
   \<and> (\<exists>r. calculate_investment_returns ''gold'' 1000 60 None = Inr r
            \<and> 0 \<le> annual_return_rate r
            \<and> sc_rate (optimistic r) = annual_return_rate r + 3.0
            \<and> sc_rate (pessimistic r) = max (annual_return_rate r - 3.0) 1.0
            \<and> sc_future_value (pessimistic r) \<le> future_value r
            \<and> future_value r \<le> sc_future_value (optimistic r))
   \<and> (\<exists>q. calculate_roi_for_zone
              \<lparr> zone_id = 1, zone_name = ''Whitefield'', outlook = ''HIGH'', confidence = ''MEDIUM'' \<rparr>
              1000 ''gold'' 60 = Inr q
            \<and> sc_future_value (zr_pessimistic q) \<le> zr_future_value q
            \<and> zr_future_value q \<le> sc_future_value (zr_optimistic q))"
  using stress_band_brackets_base [of 1000 60 "''gold''" None
      "\<lparr> zone_id = 1, zone_name = ''Whitefield'', outlook = ''HIGH'', confidence = ''MEDIUM'' \<rparr>"]
  by simp



section \<open>Growth projection: unregistered classes and invalid inputs\<close>









section \<open>Zone adjustment of the real-estate rate\<close>

lemma zone_real_estate_rate:
  "zone_adjusted_rate z ''real_estate'' =
     (if outlook z = ''HIGH'' then 12 else if outlook z = ''LOW'' then 5 else 8)
     * (if confidence z = ''HIGH'' then 1.0 else if confidence z = ''LOW'' then 0.8 else 0.9)"
  by (simp add: zone_adjusted_rate_def dict_get_def zone_base_rates_def zone_moderate_rates_def
      confidence_multipliers_def)

lemma zone_real_estate_rate_rounded:
  "py_round (zone_adjusted_rate z ''real_estate'') 2 = zone_adjusted_rate z ''real_estate''"
  by (simp add: zone_real_estate_rate py_round_def round_half_even_def Let_def)

text \<open>
  Claim C3, as stated: for a real-estate projection with a zone, the resolved rate is
  (table rate + outlook offset) times the confidence multiplier. For a zone of outlook
  \<^verbatim>\<open>'HIGH'\<close> and confidence \<^verbatim>\<open>'MEDIUM'\<close> that would be \<open>(12 + 2) * 0.9 = 12.6\<close>; the
  projection resolves 14, and the zone-ROI variant resolves \<open>12 * 0.9 = 10.8\<close>.
\<close>

theorem confidence_multiplier_counterexample:
  "map_sum id annual_return_rate
     (calculate_investment_returns ''real_estate'' 1000000 60
        (Some \<lparr> zone_id = 1, zone_name = ''Whitefield'', outlook = ''HIGH'',
                confidence = ''MEDIUM'' \<rparr>)) = Inr 14
   \<and> (14 :: real) \<noteq> (12.0 + 2.0) * 0.9
   \<and> zone_adjusted_rate
        \<lparr> zone_id = 1, zone_name = ''Whitefield'', outlook = ''HIGH'', confidence = ''MEDIUM'' \<rparr>
        ''real_estate'' = 10.8
   \<and> (10.8 :: real) \<noteq> (12.0 + 2.0) * 0.9"
  by (simp add: calculate_investment_returns_nonzero resolve_base_rate_def dict_get_def
      return_rates_def zone_adjusted_rate_def zone_base_rates_def confidence_multipliers_def)

text \<open>
  Claim C3, amended. For a real-estate projection with a zone, the resolved rate is the
  table rate 12.0 plus the outlook offset (+2.0 for \<^verbatim>\<open>'HIGH'\<close>, -2.0 for \<^verbatim>\<open>'LOW'\<close>, 0
  otherwise); the zone's confidence does not enter. The confidence multiplier (1.0 for
  \<^verbatim>\<open>'HIGH'\<close>, 0.8 for \<^verbatim>\<open>'LOW'\<close>, 0.9 for \<^verbatim>\<open>'MEDIUM'\<close> and anything else) is applied in
  the zone-ROI variant only, to a rate looked up by outlook (12 for \<^verbatim>\<open>'HIGH'\<close>, 5 for
  \<^verbatim>\<open>'LOW'\<close>, 8 otherwise) with no offset.
\<close>

theorem real_estate_zone_rate:
  assumes "a \<noteq> 0"
  shows "(\<exists>r. calculate_investment_returns ''real_estate'' a h (Some z) = Inr r
            \<and> annual_return_rate r =
                12.0 + (if outlook z = ''HIGH'' then 2.0 else if outlook z = ''LOW'' then - 2.0 else 0))
       \<and> (\<exists>q. calculate_roi_for_zone z a ''real_estate'' h = Inr q
            \<and> zr_base_rate_percent q =
                (if outlook z = ''HIGH'' then 12 else if outlook z = ''LOW'' then 5 else 8)
                * (if confidence z = ''HIGH'' then 1.0
                   else if confidence z = ''LOW'' then 0.8 else 0.9))"
proof
  have "resolve_base_rate ''real_estate'' (Some z) =
          12.0 + (if outlook z = ''HIGH'' then 2.0 else if outlook z = ''LOW'' then - 2.0 else 0)"
    by (simp add: resolve_base_rate_def dict_get_def return_rates_def)
  then show "\<exists>r. calculate_investment_returns ''real_estate'' a h (Some z) = Inr r
            \<and> annual_return_rate r =
                12.0 + (if outlook z = ''HIGH'' then 2.0 else if outlook z = ''LOW'' then - 2.0 else 0)"
    by (simp add: calculate_investment_returns_nonzero [OF assms])
next
  show "\<exists>q. calculate_roi_for_zone z a ''real_estate'' h = Inr q
            \<and> zr_base_rate_percent q =
                (if outlook z = ''HIGH'' then 12 else if outlook z = ''LOW'' then 5 else 8)
                * (if confidence z = ''HIGH'' then 1.0
                   else if confidence z = ''LOW'' then 0.8 else 0.9)"
    by (simp add: calculate_roi_for_zone_nonzero [OF assms] zone_real_estate_rate_rounded,
        simp add: zone_real_estate_rate)
qed

theorem real_estate_zone_rate_witness:
  "(1000000 :: real) \<noteq> 0
   \<and> (\<exists>r. calculate_investment_returns ''real_estate'' 1000000 60
             (Some \<lparr> zone_id = 1, zone_name = ''Whitefield'', outlook = ''LOW'',
                     confidence = ''MEDIUM'' \<rparr>) = Inr r
          \<and> annual_return_rate r = 10)
   \<and> (\<exists>q. calculate_roi_for_zone
             \<lparr> zone_id = 1, zone_name = ''Whitefield'', outlook = ''LOW'', confidence = ''MEDIUM'' \<rparr>
             1000000 ''real_estate'' 60 = Inr q
          \<and> zr_base_rate_percent q = 4.5)"
proof -
  have n: "(1000000 :: real) \<noteq> 0" by simp
  show ?thesis
    using n real_estate_zone_rate [OF n, of 60
        "\<lparr> zone_id = 1, zone_name = ''Whitefield'', outlook = ''LOW'', confidence = ''MEDIUM'' \<rparr>"]
    by auto
qed

section \<open>SIP calculator: zero rate and recommendation\<close>

lemma sip_value_pos:
  "0 < mr \<Longrightarrow>
   sip_value ms mr n = Inr (ms * ((power_int (1 + mr) n - 1) / mr) * (1 + mr))"
  by (simp add: sip_value_def py_pow_int_def py_div_def)

lemma yearly_rows_total: "\<exists>rows. yearly_rows ms mr acc ys = Inr rows"
proof (induction ys arbitrary: acc)
  case Nil
  show ?case by simp
next
  case (Cons year ys)
  obtain rest where "yearly_rows ms mr (acc + ms * 12) ys = Inr rest"
    using Cons.IH by blast
  then show ?case
    by (simp add: Let_def sip_value_pos)
qed

text \<open>
  The calculator fails in one case only: \<^verbatim>\<open>annual_return = -100\<close> with a negative year
  count, where the lump-sum power is \<^verbatim>\<open>0.0 ** negative\<close>. Everywhere else it returns the
  record below.
\<close>

lemma sip_calculator_total:
  assumes "ar \<noteq> - 100 \<or> 0 \<le> tp"
  shows "\<exists>rows. sip_calculator ms ar tp =
     (let sip_fv = (if 0 < ar / 12 / 100
                    then ms * ((power_int (1 + ar / 12 / 100) (tp * 12) - 1) / (ar / 12 / 100))
                            * (1 + ar / 12 / 100)
                    else ms * of_int (tp * 12));
          invested = ms * of_int (tp * 12);
          lump_fv = invested * power_int (1 + ar / 100) tp
      in Inr \<lparr> sr_sip_details =
              \<lparr> sd_monthly_sip = ms,
                sd_annual_return = ar,
                sd_time_period = tp,
                sd_total_invested = invested,
                sd_future_value = sip_fv,
                sd_total_returns = sip_fv - invested,
                sd_roi_percentage =
                  (if 0 < invested then (sip_fv - invested) / invested * 100 else 0) \<rparr>,
            sr_lump_sum_comparison =
              \<lparr> ls_amount = invested,
                ls_future_value = lump_fv,
                ls_total_returns = lump_fv - invested,
                ls_roi_percentage =
                  (if 0 < invested then (lump_fv - invested) / invested * 100 else 0) \<rparr>,
            sr_yearly_breakdown = rows,
            sr_recommendation = (if lump_fv < sip_fv then ''SIP'' else ''Lump Sum'') \<rparr>)"
proof -
  define mr where "mr = ar / 12 / 100"
  obtain rows where rows: "yearly_rows ms mr 0 [1..tp] = Inr rows"
    using yearly_rows_total by blast
  have pw: "py_pow_int (1 + ar / 100) tp = Inr (power_int (1 + ar / 100) tp)"
    using assms by (auto simp add: py_pow_int_def)
  show ?thesis
    unfolding sip_calculator_def Let_def mr_def [symmetric]
    by (rule exI [of _ rows]) (simp add: sip_value_pos pw rows)
qed

text \<open>
  Claim C8. At an annual return of zero the SIP future value is
  \<open>monthly_contribution * years * 12\<close>, computed by the branch without a division; in
  particular \<open>1000\<close> a month for \<open>5\<close> years gives \<open>60000\<close>. For every non-negative rate
  the calculator returns a result: no \<^verbatim>\<open>ZeroDivisionError\<close> (and no other error) is
  reachable.
\<close>

theorem sip_zero_rate:
  "(\<exists>r. sip_calculator ms 0 tp = Inr r
        \<and> sd_future_value (sr_sip_details r) = ms * of_int tp * 12)
   \<and> (\<exists>r. sip_calculator 1000 0 5 = Inr r
        \<and> sd_future_value (sr_sip_details r) = 60000)
   \<and> (0 \<le> ar \<longrightarrow> (\<exists>r. sip_calculator ms ar tp = Inr r))"
proof (intro conjI impI)
  show "\<exists>r. sip_calculator ms 0 tp = Inr r
        \<and> sd_future_value (sr_sip_details r) = ms * of_int tp * 12"
    using sip_calculator_total [of 0 tp ms] by (auto simp add: Let_def)
  show "\<exists>r. sip_calculator 1000 0 5 = Inr r
        \<and> sd_future_value (sr_sip_details r) = 60000"
    using sip_calculator_total [of 0 5 1000] by (auto simp add: Let_def)
  assume "0 \<le> ar"
  then have "ar \<noteq> - 100 \<or> 0 \<le> tp" by simp
  from sip_calculator_total [OF this, of ms]
  show "\<exists>r. sip_calculator ms ar tp = Inr r"
    by (auto simp add: Let_def)
qed

theorem sip_zero_rate_witness:
  "(0::real) \<le> 12 \<and> (\<exists>r. sip_calculator 10000 12 10 = Inr r)"
  using sip_zero_rate [of 10000 10 12] by simp

text \<open>
  Claim C2, as stated: when the SIP and the lump-sum future values are equal, the
  recommendation is SIP. At a rate of zero both future values are \<open>24000\<close> and the
  recommendation is \<^verbatim>\<open>'Lump Sum'\<close>.
\<close>

theorem sip_tie_counterexample:
  "sip_calculator 1000 0 2 =
     Inr \<lparr> sr_sip_details =
             \<lparr> sd_monthly_sip = 1000, sd_annual_return = 0, sd_time_period = 2,
               sd_total_invested = 24000, sd_future_value = 24000,
               sd_total_returns = 0, sd_roi_percentage = 0 \<rparr>,
           sr_lump_sum_comparison =
             \<lparr> ls_amount = 24000, ls_future_value = 24000,
               ls_total_returns = 0, ls_roi_percentage = 0 \<rparr>,
           sr_yearly_breakdown =
             [\<lparr> sy_year = 1, sy_invested = 12000, sy_value = 12000, sy_returns = 0 \<rparr>,
              \<lparr> sy_year = 2, sy_invested = 24000, sy_value = 24000, sy_returns = 0 \<rparr>],
           sr_recommendation = ''Lump Sum'' \<rparr>"
  by (simp add: sip_calculator_def py_pow_int_def Let_def upto_rec1)

text \<open>
  Claim C2, amended. The recommendation is SIP exactly when the SIP future value is
  strictly greater than the lump-sum future value, and Lump Sum otherwise: when the two
  future values are equal the recommendation is Lump Sum.
\<close>

theorem sip_recommendation_rule:
  assumes "ar \<noteq> - 100 \<or> 0 \<le> tp"
  shows "\<exists>r. sip_calculator ms ar tp = Inr r
           \<and> (sr_recommendation r = ''SIP''
                \<longleftrightarrow> ls_future_value (sr_lump_sum_comparison r) < sd_future_value (sr_sip_details r))
           \<and> (sr_recommendation r = ''Lump Sum''
                \<longleftrightarrow> sd_future_value (sr_sip_details r) \<le> ls_future_value (sr_lump_sum_comparison r))"
  using sip_calculator_total [OF assms, of ms] by (auto simp add: Let_def)

theorem sip_recommendation_rule_witness:
  "(12::real) \<noteq> - 100 \<and> (0::int) \<le> 10
   \<and> (\<exists>r. sip_calculator 10000 12 10 = Inr r
           \<and> (sr_recommendation r = ''SIP''
                \<longleftrightarrow> ls_future_value (sr_lump_sum_comparison r) < sd_future_value (sr_sip_details r))
           \<and> (sr_recommendation r = ''Lump Sum''
                \<longleftrightarrow> sd_future_value (sr_sip_details r) \<le> ls_future_value (sr_lump_sum_comparison r)))"
proof -
  have h: "(12::real) \<noteq> - 100 \<or> (0::int) \<le> 10" by simp
  show ?thesis
    using h sip_recommendation_rule [OF h, of 10000] by simp
qed

section \<open>Investment comparison: ordering of the result\<close>








section \<open>Diversification score\<close>

lemma foldl_update_keys:
  "distinct (map fst al) \<Longrightarrow>
   distinct (map fst (foldl (\<lambda>alloc s. AList.update (k s) (v s) alloc) al ss))
   \<and> set (map fst (foldl (\<lambda>alloc s. AList.update (k s) (v s) alloc) al ss))
       = set (map fst al) \<union> k ` set ss"
proof (induction ss arbitrary: al)
  case Nil
  then show ?case by simp
next
  case (Cons s ss)
  have d: "distinct (map fst (AList.update (k s) (v s) al))"
    using Cons.prems by (simp add: distinct_update)
  have "set (map fst (AList.update (k s) (v s) al)) = insert (k s) (set (map fst al))"
    by (simp add: dom_update)
  with Cons.IH [OF d] show ?case by auto
qed

lemma length_build_allocation:
  "length (build_allocation tv ss) = card (snap_asset_type ` set ss)"
proof -
  let ?al = "build_allocation tv ss"
  have "distinct (map fst ?al) \<and> set (map fst ?al) = snap_asset_type ` set ss"
    unfolding build_allocation_def
    using foldl_update_keys [of "[]" snap_asset_type _ ss] by simp
  then have "card (snap_asset_type ` set ss) = length (map fst ?al)"
    using distinct_card [of "map fst ?al"] by simp
  then show ?thesis by simp
qed

lemma calculate_diversification_score_length:
  "calculate_diversification_score al =
     (let n = length al in
      if n = 0 then 0 else if n = 1 then 20 else if n = 2 then 40
      else if n \<le> 4 then 60 else 90)"
  by (auto simp add: calculate_diversification_score_def Let_def)

text \<open>
  Claim C7, as stated: an asset class whose allocation is zero does not raise the score,
  so a portfolio with one funded class scores 20. A portfolio holding \<open>100\<close> in stocks and
  a gold snapshot of amount \<open>0\<close> has the allocation \<^verbatim>\<open>{stocks: 100, gold: 0}\<close> and scores 40.
\<close>

theorem zero_allocation_counts_counterexample:
  "calculate_portfolio_risk \<lparr> plan_id = 1, plan_name = ''Growth'' \<rparr>
     [\<lparr> snap_asset_type = ''stocks'', snap_amount = 100 \<rparr>,
      \<lparr> snap_asset_type = ''gold'', snap_amount = 0 \<rparr>] =
     \<lparr> pr_portfolio_id = 1,
       pr_portfolio_name = ''Growth'',
       pr_risk_score = 80,
       pr_risk_level = ''HIGH'',
       pr_asset_allocation = [(''stocks'', 100), (''gold'', 0)],
       pr_diversification_score = 40,
       pr_volatility_estimate = 24 \<rparr>"
  by (simp add: calculate_portfolio_risk_def build_allocation_def Let_def dict_get_def
      risk_weights_def calculate_diversification_score_def py_round_def round_half_even_def)

text \<open>
  Claim C7, amended. The diversification score is a step function of the number of
  asset classes that are keys of the allocation mapping, whatever their percentage:
  0 keys give 0, 1 gives 20, 2 give 40, 3 or 4 give 60, 5 or more give 90. For a
  portfolio that number is the number of distinct asset types among its snapshots.
  A single-class mix scores 20 and a five-class 20/20/20/20/20 mix scores 90.
\<close>

theorem diversification_counts_keys:
  "calculate_diversification_score al =
     (let n = length al in
      if n = 0 then 0 else if n = 1 then 20 else if n = 2 then 40
      else if n \<le> 4 then 60 else 90)
   \<and> pr_diversification_score (calculate_portfolio_risk p ss) =
     (let n = card (snap_asset_type ` set ss) in
      if n = 0 then 0 else if n = 1 then 20 else if n = 2 then 40
      else if n \<le> 4 then 60 else 90)
   \<and> calculate_diversification_score [(''stocks'', 100)] = 20
   \<and> calculate_diversification_score
        [(''stocks'', 20), (''gold'', 20), (''sip'', 20), (''fixed_deposit'', 20), (''ppf'', 20)] = 90"
proof (intro conjI)
  show "calculate_diversification_score al =
     (let n = length al in
      if n = 0 then 0 else if n = 1 then 20 else if n = 2 then 40
      else if n \<le> 4 then 60 else 90)"
    by (rule calculate_diversification_score_length)
  show "pr_diversification_score (calculate_portfolio_risk p ss) =
     (let n = card (snap_asset_type ` set ss) in
      if n = 0 then 0 else if n = 1 then 20 else if n = 2 then 40
      else if n \<le> 4 then 60 else 90)"
  proof -
    have "pr_diversification_score (calculate_portfolio_risk p ss) =
        calculate_diversification_score (build_allocation (sum_list (map snap_amount ss)) ss)"
      by (simp add: calculate_portfolio_risk_def Let_def)
    also have "\<dots> =
       (let n = length (build_allocation (sum_list (map snap_amount ss)) ss) in
        if n = 0 then 0 else if n = 1 then 20 else if n = 2 then 40
        else if n \<le> 4 then 60 else 90)"
      by (rule calculate_diversification_score_length)
    finally show ?thesis
      by (simp only: length_build_allocation)
  qed
  show "calculate_diversification_score [(''stocks'', 100)] = 20"
    by (simp add: calculate_diversification_score_def)
  show "calculate_diversification_score
        [(''stocks'', 20), (''gold'', 20), (''sip'', 20), (''fixed_deposit'', 20), (''ppf'', 20)] = 90"
    by (simp add: calculate_diversification_score_def)
qed

section \<open>Financial health: the debt factor\<close>

text \<open>
  Claim C4, as stated: a user with recorded liabilities but no income figure still
  receives the 20-point debt default. For a user without income and a snapshot with
  liabilities of \<open>50000\<close>, the debt factor adds nothing and writes no \<^verbatim>\<open>'debt'\<close> entry; the
  composite score is 10.
\<close>

theorem debt_default_counterexample:
  "debt_factor
     \<lparr> user_id = 1, monthly_income = None, monthly_expenses = Some 30000 \<rparr>
     (Some \<lparr> savings = Some 100000, mf = Some 0, stocks = Some 0, gold = Some 0,
             epf = Some 0, real_estate = Some 0, liabilities = Some 50000 \<rparr>) = (0, None)
   \<and> calculate_financial_health_score
     \<lparr> user_id = 1, monthly_income = None, monthly_expenses = Some 30000 \<rparr>
     (Some \<lparr> savings = Some 100000, mf = Some 0, stocks = Some 0, gold = Some 0,
             epf = Some 0, real_estate = Some 0, liabilities = Some 50000 \<rparr>) 0 =
     Inr \<lparr> hs_score = 10,
           hs_rating = ''Poor'',
           hs_factors = \<lparr> hf_income = None, hf_expense_ratio = None,
                          hf_diversification = Some ''Poor'', hf_debt = None,
                          hf_goal_planning = Some ''Poor'' \<rparr>,
           hs_recommendations =
             [''Diversify investments across different asset classes'',
              ''Set clear financial goals with timelines'',
              ''Consider consulting a financial advisor''] \<rparr>"
  by (simp add: debt_factor_def truthy_def calculate_financial_health_score_def income_factor_def
      expense_ratio_factor_def diversification_factor_def asset_columns_def goal_factor_def
      get_health_recommendations_def average_or_poor_def Let_def)

text \<open>
  Claim C4, amended. When no liabilities are recorded (no snapshot, or liabilities
  \<^verbatim>\<open>NULL\<close> or zero), the debt factor contributes its maximum of 20 points to the
  composite score, with rating \<^verbatim>\<open>'Excellent'\<close>: a default, not an error. When liabilities
  are recorded and no income figure is available, the debt factor is skipped: it
  contributes nothing and no debt rating is reported. (\<open>dv\<close> is the contribution of the
  diversification factor, the only one that can raise.)
\<close>

theorem debt_factor_default:
  assumes "diversification_factor snap = Inr dv"
  shows "((case snap of None \<Rightarrow> True | Some s \<Rightarrow> \<not> truthy (liabilities s)) \<longrightarrow>
            debt_factor u snap = (20, Some ''Excellent'')
            \<and> (\<exists>hs. calculate_financial_health_score u snap g = Inr hs
                 \<and> hs_score hs =
                     min (fst (income_factor u) + fst (expense_ratio_factor u) + fst dv + 20
                          + fst (goal_factor g)) 100
                 \<and> hf_debt (hs_factors hs) = Some ''Excellent''))
       \<and> ((case snap of None \<Rightarrow> False | Some s \<Rightarrow> truthy (liabilities s))
            \<and> \<not> truthy (monthly_income u) \<longrightarrow>
            debt_factor u snap = (0, None)
            \<and> (\<exists>hs. calculate_financial_health_score u snap g = Inr hs
                 \<and> hs_score hs =
                     min (fst (income_factor u) + fst (expense_ratio_factor u) + fst dv
                          + fst (goal_factor g)) 100
                 \<and> hf_debt (hs_factors hs) = None))"
proof (intro conjI impI)
  assume nl: "case snap of None \<Rightarrow> True | Some s \<Rightarrow> \<not> truthy (liabilities s)"
  then show d: "debt_factor u snap = (20, Some ''Excellent'')"
    by (auto simp add: debt_factor_def truthy_def Let_def split: option.splits)
  show "\<exists>hs. calculate_financial_health_score u snap g = Inr hs
                 \<and> hs_score hs =
                     min (fst (income_factor u) + fst (expense_ratio_factor u) + fst dv + 20
                          + fst (goal_factor g)) 100
                 \<and> hf_debt (hs_factors hs) = Some ''Excellent''"
    by (simp add: calculate_financial_health_score_def assms d Let_def)
next
  assume li: "(case snap of None \<Rightarrow> False | Some s \<Rightarrow> truthy (liabilities s))
            \<and> \<not> truthy (monthly_income u)"
  then show d: "debt_factor u snap = (0, None)"
    by (auto simp add: debt_factor_def truthy_def Let_def split: option.splits)
  show "\<exists>hs. calculate_financial_health_score u snap g = Inr hs
                 \<and> hs_score hs =
                     min (fst (income_factor u) + fst (expense_ratio_factor u) + fst dv
                          + fst (goal_factor g)) 100
                 \<and> hf_debt (hs_factors hs) = None"
    by (simp add: calculate_financial_health_score_def assms d Let_def)
qed

theorem debt_factor_default_witness:
  "diversification_factor None = Inr (0, None)
   \<and> (case (None :: asset_snapshot option) of None \<Rightarrow> True | Some s \<Rightarrow> \<not> truthy (liabilities s))
   \<and> debt_factor \<lparr> user_id = 1, monthly_income = None, monthly_expenses = None \<rparr> None
       = (20, Some ''Excellent'')
   \<and> (\<exists>hs. calculate_financial_health_score
              \<lparr> user_id = 1, monthly_income = None, monthly_expenses = None \<rparr> None 0 = Inr hs
          \<and> hs_score hs = 20
          \<and> hf_debt (hs_factors hs) = Some ''Excellent'')
   \<and> diversification_factor
        (Some \<lparr> savings = Some 100000, mf = Some 0, stocks = Some 0, gold = Some 0,
                epf = Some 0, real_estate = Some 0, liabilities = Some 50000 \<rparr>)
       = Inr (10, Some ''Poor'')
   \<and> truthy (Some 50000) \<and> \<not> truthy None
   \<and> debt_factor \<lparr> user_id = 1, monthly_income = None, monthly_expenses = None \<rparr>
        (Some \<lparr> savings = Some 100000, mf = Some 0, stocks = Some 0, gold = Some 0,
                epf = Some 0, real_estate = Some 0, liabilities = Some 50000 \<rparr>)
       = (0, None)
   \<and> (\<exists>hs. calculate_financial_health_score
              \<lparr> user_id = 1, monthly_income = None, monthly_expenses = None \<rparr>
              (Some \<lparr> savings = Some 100000, mf = Some 0, stocks = Some 0, gold = Some 0,
                      epf = Some 0, real_estate = Some 0, liabilities = Some 50000 \<rparr>) 0 = Inr hs
          \<and> hs_score hs = 10
          \<and> hf_debt (hs_factors hs) = None)"
proof -
  let ?u = "\<lparr> user_id = 1, monthly_income = None, monthly_expenses = None \<rparr>"
  let ?s = "\<lparr> savings = Some 100000, mf = Some 0, stocks = Some 0, gold = Some 0,
              epf = Some 0, real_estate = Some 0, liabilities = Some 50000 \<rparr>"
  have dv1: "diversification_factor None = Inr (0, None)"
    by (simp add: diversification_factor_def)
  have dv2: "diversification_factor (Some ?s) = Inr (10, Some ''Poor'')"
    by (simp add: diversification_factor_def asset_columns_def)
  have t: "truthy (Some 50000) \<and> \<not> truthy None"
    by (simp add: truthy_def)
  show ?thesis
    using dv1 dv2 t debt_factor_default [OF dv1, of ?u 0] debt_factor_default [OF dv2, of ?u 0]
    by (simp add: income_factor_def expense_ratio_factor_def goal_factor_def)
qed

end
